theory Spec2Isabelle
  imports Main
begin

section \<open>Strings and regular-expression matching\<close>

text \<open>
  TypeScript strings are modelled as \<^typ>\<open>string\<close>, lists of characters with the code points
  U+0000 to U+00FF (the range of \<^typ>\<open>char\<close>). On this range \<^verbatim>\<open>String.prototype.trim\<close>
  removes the white space and line terminators U+0009 to U+000D, U+0020 and U+00A0 from both
  ends, and \<^verbatim>\<open>toLowerCase\<close> maps \<^verbatim>\<open>A\<close> to \<^verbatim>\<open>Z\<close> and the capital letters U+00C0 to U+00DE
  (all but the multiplication sign U+00D7) to the letter 32 code points higher.
\<close>

definition isSpace :: "char \<Rightarrow> bool" where
  "isSpace c = (c \<in> set [CHR 0x09, CHR 0x0A, CHR 0x0B, CHR 0x0C, CHR 0x0D, CHR '' '', CHR 0xA0])"

definition trim :: "string \<Rightarrow> string" where
  "trim s = rev (dropWhile isSpace (rev (dropWhile isSpace s)))"

definition toLowerChar :: "char \<Rightarrow> char" where
  "toLowerChar c =
     (let n = (of_char c :: nat)
      in if (65 \<le> n \<and> n \<le> 90) \<or> (192 \<le> n \<and> n \<le> 222 \<and> n \<noteq> 215) then char_of (n + 32) else c)"

definition toLowerCase :: "string \<Rightarrow> string" where
  "toLowerCase s = map toLowerChar s"

text \<open>\<^verbatim>\<open>t.includes(s)\<close>: \<open>s\<close> occurs in \<open>t\<close> as a contiguous substring.\<close>

fun str_includes :: "string \<Rightarrow> string \<Rightarrow> bool" where
  "str_includes [] s = (s = [])"
| "str_includes (c # cs) s = (take (length s) (c # cs) = s \<or> str_includes cs s)"

text \<open>
  A regular expression is matched by backtracking. Each piece of a pattern is modelled by the
  list of ways it can consume a prefix of the remaining input, in the order in which the
  engine tries them; the match of a whole pattern is the first success of the sequence of its
  pieces.

  \<^item> \<open>lit s\<close>: the literal text \<open>s\<close>;
  \<^item> \<open>opt s\<close>: \<^verbatim>\<open>(?:s)?\<close>, greedy: with \<open>s\<close> first, then without;
  \<^item> \<open>plusLazy P\<close>: \<^verbatim>\<open>[P]+?\<close>, one or more characters of the class, shortest first;
  \<^item> \<open>plusGreedy P\<close>: \<^verbatim>\<open>[P]+\<close>, longest first;
  \<^item> \<open>eos\<close>: \<^verbatim>\<open>$\<close> without the multiline flag, the end of the input.
\<close>

definition lit :: "string \<Rightarrow> string \<Rightarrow> string list" where
  "lit s inp = (if take (length s) inp = s then [drop (length s) inp] else [])"

definition opt :: "string \<Rightarrow> string \<Rightarrow> string list" where
  "opt s inp = lit s inp @ [inp]"

fun plusLazy :: "(char \<Rightarrow> bool) \<Rightarrow> string \<Rightarrow> (string \<times> string) list" where
  "plusLazy P [] = []"
| "plusLazy P (c # cs) =
     (if P c then ([c], cs) # map (\<lambda>(m, r). (c # m, r)) (plusLazy P cs) else [])"

definition plusGreedy :: "(char \<Rightarrow> bool) \<Rightarrow> string \<Rightarrow> (string \<times> string) list" where
  "plusGreedy P inp = rev (plusLazy P inp)"

definition eos :: "string \<Rightarrow> bool" where
  "eos inp = (inp = [])"

definition firstMatch :: "'a list \<Rightarrow> 'a option" where
  "firstMatch ms = (case ms of [] \<Rightarrow> None | m # _ \<Rightarrow> Some m)"

definition notSlash :: "char \<Rightarrow> bool" where
  "notSlash c = (c \<noteq> CHR ''/'')"

definition notColon :: "char \<Rightarrow> bool" where
  "notColon c = (c \<noteq> CHR '':'')"

section \<open>Git platform detection (git-platform-detector.ts)\<close>

text \<open>
  The interface \<^verbatim>\<open>GitPlatform\<close>. The field \<^verbatim>\<open>type\<close> is a string at run time
  (\<^verbatim>\<open>'github' | 'gitlab'\<close> for the values the parser builds).
\<close>

record GitPlatform =
  ptype :: string
  host :: string
  owner :: string
  repo :: string
  fullName :: string
  isGitHub :: bool
  isGitLab :: bool
  isSelfHosted :: bool

definition createPlatform :: "string \<Rightarrow> string \<Rightarrow> string \<Rightarrow> GitPlatform" where
  "createPlatform h ownr rpo =
     (let normalizedHost = toLowerCase h;
          isGitHub' = (normalizedHost = ''github.com'' \<or> str_includes normalizedHost ''github'');
          isGitLab' = (normalizedHost = ''gitlab.com'' \<or> str_includes normalizedHost ''gitlab''
                        \<or> (\<not> isGitHub' \<and> normalizedHost \<noteq> ''github.com''));
          isSelfHosted' = (normalizedHost \<noteq> ''github.com'' \<and> normalizedHost \<noteq> ''gitlab.com'')
      in \<lparr> ptype = (if isGitHub' then ''github'' else ''gitlab''),
           host = normalizedHost,
           owner = ownr,
           repo = rpo,
           fullName = ownr @ ''/'' @ rpo,
           isGitHub = isGitHub',
           isGitLab = isGitLab',
           isSelfHosted = isSelfHosted' \<rparr>)"

text \<open>\<^verbatim>\<open>/^https?:\/\/([^/]+)\/([^/]+)\/([^/]+?)(?:\.git)?$/\<close> with its three groups.\<close>

definition httpsMatch :: "string \<Rightarrow> (string \<times> string \<times> string) option" where
  "httpsMatch url = firstMatch
     [(h, ownr, rpo).
        r1 \<leftarrow> lit ''http'' url, r2 \<leftarrow> opt ''s'' r1, r3 \<leftarrow> lit ''://'' r2,
        (h, r4) \<leftarrow> plusGreedy notSlash r3, r5 \<leftarrow> lit ''/'' r4,
        (ownr, r6) \<leftarrow> plusGreedy notSlash r5, r7 \<leftarrow> lit ''/'' r6,
        (rpo, r8) \<leftarrow> plusLazy notSlash r7, r9 \<leftarrow> opt ''.git'' r8, eos r9]"

text \<open>\<^verbatim>\<open>/^git@([^:]+):([^/]+)\/([^/]+?)(?:\.git)?$/\<close> with its three groups.\<close>

definition sshMatch :: "string \<Rightarrow> (string \<times> string \<times> string) option" where
  "sshMatch url = firstMatch
     [(h, ownr, rpo).
        r1 \<leftarrow> lit ''git@'' url,
        (h, r2) \<leftarrow> plusGreedy notColon r1, r3 \<leftarrow> lit '':'' r2,
        (ownr, r4) \<leftarrow> plusGreedy notSlash r3, r5 \<leftarrow> lit ''/'' r4,
        (rpo, r6) \<leftarrow> plusLazy notSlash r5, r7 \<leftarrow> opt ''.git'' r6, eos r7]"

definition parseGitRemoteUrl :: "string \<Rightarrow> GitPlatform option" where
  "parseGitRemoteUrl remoteUrl =
     (let url = trim remoteUrl in
      case httpsMatch url of
        Some (h, ownr, rpo) \<Rightarrow> Some (createPlatform h ownr rpo)
      | None \<Rightarrow>
          (case sshMatch url of
             Some (h, ownr, rpo) \<Rightarrow> Some (createPlatform h ownr rpo)
           | None \<Rightarrow> None))"

text \<open>
  The two URL shapes as section 4.1 of the specification (Remote URL Parser) words them,
  \<^verbatim>\<open>https?://<host>/<owner>/<repo>(.git)?\<close> and \<^verbatim>\<open>git@<host>:<owner>/<repo>(.git)?\<close>, where the
  owner may itself be made of several \<^verbatim>\<open>/\<close>-separated segments and the final segment is the
  repository. They are stated apart from the two patterns of the code, to compare the parser
  with. \<open>segments n path\<close>: the path has at least \<open>n\<close> segments, none of them empty.
\<close>

fun splitOn :: "char \<Rightarrow> string \<Rightarrow> string list" where
  "splitOn c [] = [[]]"
| "splitOn c (x # xs) =
     (if x = c then [] # splitOn c xs
      else (case splitOn c xs of [] \<Rightarrow> [[x]] | s # ss \<Rightarrow> (x # s) # ss))"




subsection \<open>External processes\<close>

text \<open>
  A thrown JavaScript value. Everything thrown inside the modelled functions
  (by \<^verbatim>\<open>child_process\<close>, \<^verbatim>\<open>fs\<close>, \<^verbatim>\<open>JSON.parse\<close>, \<^verbatim>\<open>js-yaml\<close> or a \<^verbatim>\<open>throw new Error\<close> of
  the code itself) is an instance of \<^verbatim>\<open>Error\<close>; \<open>PlatformAdapterError message platform
  originalError\<close> is the class of base-adapter.ts.
\<close>

datatype error =
    Error string
  | SyntaxError string
  | TypeError string
  | PlatformAdapterError string string "error option"

fun message :: "error \<Rightarrow> string" where
  "message (Error m) = m"
| "message (SyntaxError m) = m"
| "message (TypeError m) = m"
| "message (PlatformAdapterError m _ _) = m"

text \<open>
  A call of \<^verbatim>\<open>execSync(command, {cwd})\<close>, \<^verbatim>\<open>execFileSync(file, args, {cwd})\<close> or
  \<^verbatim>\<open>spawn(file, args, {cwd})\<close>. The outside world answers each call, knowing the calls
  made before it, with the text of standard output or with the error thrown (a missing
  binary, a non-zero exit code). The log of calls is threaded through every function that
  starts a process, so that the number and order of the calls can be stated.
\<close>

datatype invocation =
    ExecSync string "string option"
  | ExecFileSync string "string list" "string option"
  | Spawn string "string list" "string option"

type_synonym world = "invocation list \<Rightarrow> invocation \<Rightarrow> error + string"

definition execSync ::
  "world \<Rightarrow> invocation list \<Rightarrow> string \<Rightarrow> string option \<Rightarrow> (error + string) \<times> invocation list" where
  "execSync w log command cwd = (w log (ExecSync command cwd), log @ [ExecSync command cwd])"

definition execFileSync ::
  "world \<Rightarrow> invocation list \<Rightarrow> string \<Rightarrow> string list \<Rightarrow> string option
     \<Rightarrow> (error + string) \<times> invocation list" where
  "execFileSync w log file args cwd =
     (w log (ExecFileSync file args cwd), log @ [ExecFileSync file args cwd])"

subsection \<open>The detection cache\<close>

text \<open>
  \<^verbatim>\<open>platformCache\<close> is a \<^verbatim>\<open>Map<string, GitPlatform | null>\<close>; the state of the module is the
  cache together with the log of processes started. \<^verbatim>\<open>path.resolve\<close> is a parameter
  (\<open>resolve\<close>) of the functions that call it.
\<close>

record detector_state =
  platformCache :: "string \<rightharpoonup> GitPlatform option"
  invocations :: "invocation list"

record detect_options =
  remoteName :: "string option"
  forceRefresh :: "bool option"

definition clearPlatformCache :: "detector_state \<Rightarrow> detector_state" where
  "clearPlatformCache s = s\<lparr>platformCache := Map.empty\<rparr>"

definition clearProjectPlatformCache ::
  "(string \<Rightarrow> string) \<Rightarrow> string \<Rightarrow> detector_state \<Rightarrow> detector_state" where
  "clearProjectPlatformCache resolve projectPath s =
     (let normalizedPath = resolve projectPath
      in s\<lparr>platformCache := (platformCache s)(normalizedPath := None)\<rparr>)"

definition remoteOrOrigin :: "detect_options \<Rightarrow> string" where
  "remoteOrOrigin options = (case remoteName options of None \<Rightarrow> ''origin'' | Some n \<Rightarrow> n)"

definition getGitRemoteUrl ::
  "world \<Rightarrow> invocation list \<Rightarrow> string \<Rightarrow> string \<Rightarrow> string option \<times> invocation list" where
  "getGitRemoteUrl w log projectPath remote =
     (case execSync w log (''git remote get-url '' @ remote) (Some projectPath) of
        (Inl e, log') \<Rightarrow> (None, log')
      | (Inr out, log') \<Rightarrow>
          (let remoteUrl = trim out in (if remoteUrl = [] then None else Some remoteUrl, log')))"

definition detectGitPlatform ::
  "(string \<Rightarrow> string) \<Rightarrow> world \<Rightarrow> string \<Rightarrow> detect_options \<Rightarrow> detector_state
     \<Rightarrow> GitPlatform option \<times> detector_state" where
  "detectGitPlatform resolve w projectPath options s =
     (let remote = remoteOrOrigin options;
          force = (case forceRefresh options of None \<Rightarrow> False | Some b \<Rightarrow> b);
          normalizedPath = resolve projectPath
      in if \<not> force \<and> normalizedPath \<in> dom (platformCache s)
         then ((case platformCache s normalizedPath of None \<Rightarrow> None | Some v \<Rightarrow> v), s)
         else (case getGitRemoteUrl w (invocations s) normalizedPath remote of
                 (None, log') \<Rightarrow>
                   (None, s\<lparr>platformCache := (platformCache s)(normalizedPath \<mapsto> None),
                             invocations := log'\<rparr>)
               | (Some remoteUrl, log') \<Rightarrow>
                   (let platform = parseGitRemoteUrl remoteUrl
                    in (platform, s\<lparr>platformCache := (platformCache s)(normalizedPath \<mapsto> platform),
                                     invocations := log'\<rparr>))))"

text \<open>
  The one process a cache miss starts: \<^verbatim>\<open>git remote get-url <remoteName>\<close> in the resolved
  project directory.
\<close>

definition gitRemoteGetUrl :: "string \<Rightarrow> detect_options \<Rightarrow> invocation" where
  "gitRemoteGetUrl normalizedPath options =
     ExecSync (''git remote get-url '' @ remoteOrOrigin options) (Some normalizedPath)"

text \<open>A run of further \<^verbatim>\<open>detectGitPlatform\<close> calls, each with its path and options.\<close>

fun detectMany ::
  "(string \<Rightarrow> string) \<Rightarrow> world \<Rightarrow> (string \<times> detect_options) list \<Rightarrow> detector_state
     \<Rightarrow> detector_state" where
  "detectMany resolve w [] s = s"
| "detectMany resolve w ((p, options) # calls) s =
     detectMany resolve w calls (snd (detectGitPlatform resolve w p options s))"

definition forcedOn :: "(string \<Rightarrow> string) \<Rightarrow> string \<Rightarrow> string \<times> detect_options \<Rightarrow> bool" where
  "forcedOn resolve p call =
     (resolve (fst call) = resolve p \<and> forceRefresh (snd call) = Some True)"

section \<open>The adapter factory (factory.ts)\<close>

text \<open>
  An adapter is an object of one of the two classes, holding the descriptor it was built with.
\<close>

datatype PlatformAdapter = GitHubAdapter GitPlatform | GitLabAdapter GitPlatform

fun getPlatform :: "PlatformAdapter \<Rightarrow> GitPlatform" where
  "getPlatform (GitHubAdapter platform) = platform"
| "getPlatform (GitLabAdapter platform) = platform"

fun getPlatformType :: "PlatformAdapter \<Rightarrow> string" where
  "getPlatformType (GitHubAdapter _) = ''github''"
| "getPlatformType (GitLabAdapter _) = ''gitlab''"

fun getCliName :: "PlatformAdapter \<Rightarrow> string" where
  "getCliName (GitHubAdapter _) = ''gh''"
| "getCliName (GitLabAdapter _) = ''glab''"

definition createAdapter :: "GitPlatform \<Rightarrow> error + PlatformAdapter" where
  "createAdapter platform =
     (if ptype platform = ''github'' then Inr (GitHubAdapter platform)
      else if ptype platform = ''gitlab'' then Inr (GitLabAdapter platform)
      else Inl (Error (''Unsupported platform type: '' @ ptype platform)))"

text \<open>
  \<^verbatim>\<open>getAdapter\<close> is asynchronous: its \<^verbatim>\<open>throw\<close> rejects the promise it returns (\<open>Inl\<close>).
  It calls \<^verbatim>\<open>detectGitPlatform(projectPath)\<close> with no options.
\<close>

definition getAdapter ::
  "(string \<Rightarrow> string) \<Rightarrow> world \<Rightarrow> string \<Rightarrow> detector_state
     \<Rightarrow> (error + PlatformAdapter) \<times> detector_state" where
  "getAdapter resolve w projectPath s =
     (case detectGitPlatform resolve w projectPath \<lparr>remoteName = None, forceRefresh = None\<rparr> s of
        (None, s') \<Rightarrow>
          (Inl (Error ''Could not detect git platform. Make sure the project has a git remote configured.''),
           s')
      | (Some platform, s') \<Rightarrow> (createAdapter platform, s'))"

section \<open>The platform adapters (github-adapter.ts, gitlab-adapter.ts)\<close>

subsection \<open>Errors, JSON values and numbers\<close>

text \<open>
  \<^verbatim>\<open>error instanceof Error ? error : undefined\<close>: every value of \<^typ>\<open>error\<close> is an instance of
  \<^verbatim>\<open>Error\<close>. \<open>catchAs message platform\<close> is the handler
  \<^verbatim>\<open>catch (error) { throw new PlatformAdapterError(message, platform, ...) }\<close> around a body.
\<close>

definition instanceofError :: "error \<Rightarrow> bool" where
  "instanceofError e = True"

definition originalError :: "error \<Rightarrow> error option" where
  "originalError e = (if instanceofError e then Some e else None)"

definition catchAs :: "string \<Rightarrow> string \<Rightarrow> error + 'a \<Rightarrow> error + 'a" where
  "catchAs msg platform r =
     (case r of
        Inl e \<Rightarrow> Inl (PlatformAdapterError msg platform (originalError e))
      | Inr v \<Rightarrow> Inr v)"





definition isDigit :: "char \<Rightarrow> bool" where
  "isDigit c = (48 \<le> (of_char c :: nat) \<and> (of_char c :: nat) \<le> 57)"

definition isUpper :: "char \<Rightarrow> bool" where
  "isUpper c = (65 \<le> (of_char c :: nat) \<and> (of_char c :: nat) \<le> 90)"

definition isLower :: "char \<Rightarrow> bool" where
  "isLower c = (97 \<le> (of_char c :: nat) \<and> (of_char c :: nat) \<le> 122)"

definition digitChar :: "nat \<Rightarrow> char" where
  "digitChar n = ''0123456789'' ! n"

fun showNat :: "nat \<Rightarrow> string" where
  "showNat n = (if n < 10 then [digitChar n] else showNat (n div 10) @ [digitChar (n mod 10)])"

declare showNat.simps [simp del]

definition showInt :: "int \<Rightarrow> string" where
  "showInt i = (if i < 0 then ''-'' @ showNat (nat (- i)) else showNat (nat i))"

text \<open>
  A JavaScript number is a double. The numbers the adapters compute with are those
  \<^verbatim>\<open>parseInt\<close> returns: \<^verbatim>\<open>NaN\<close>, an integer that is a double, or an infinity (\<open>Infinity True\<close> is
  the positive one). The zero \<^verbatim>\<open>-0\<close> is not told apart from \<^verbatim>\<open>0\<close>: both print as \<^verbatim>\<open>0\<close>.

  \<open>roundToDouble n\<close> is the double nearest to the natural number \<open>n\<close>: \<open>n\<close> itself below
  \<open>2^53\<close>, otherwise \<open>n\<close> rounded to 53 significant bits, a tie going to the even significand.
  \<open>toNumber i\<close> is the number value of the integer \<open>i\<close>, an infinity from \<open>2^1024\<close> on.
\<close>

datatype number = NaN | Finite int | Infinity bool

fun bitLength :: "nat \<Rightarrow> nat" where
  "bitLength n = (if n = 0 then 0 else Suc (bitLength (n div 2)))"

declare bitLength.simps [simp del]

definition roundToDouble :: "nat \<Rightarrow> nat" where
  "roundToDouble n =
     (if n < 2 ^ 53 then n
      else (let u = 2 ^ (bitLength n - 53); q = n div u; r = n mod u
            in if u < 2 * r \<or> (2 * r = u \<and> odd q) then (q + 1) * u else q * u))"

definition toNumber :: "int \<Rightarrow> number" where
  "toNumber i =
     (let d = roundToDouble (nat \<bar>i\<bar>)
      in if 2 ^ 1024 \<le> d then Infinity (0 \<le> i) else Finite (if i < 0 then - int d else int d))"

text \<open>
  The conversion of a number to a string (in a template literal). An integer below \<open>2^53\<close> is
  printed digit by digit. A larger double \<open>v\<close> is printed as the decimal with the fewest
  significant digits that still rounds to \<open>v\<close> (\<open>shortestDecimal\<close>: for each number of digits \<open>k\<close>
  the two multiples of the power of ten around \<open>v\<close>, the nearer one first, the even one on a
  tie), in full below \<open>10^21\<close> and with an exponent from there on.
\<close>

definition shortestDecimal :: "nat \<Rightarrow> nat" where
  "shortestDecimal v =
     hd (concat (map (\<lambda>k. let u = 10 ^ (length (showNat v) - k); lo = (v div u) * u; hi = lo + u
                          in filter (\<lambda>c. roundToDouble c = v)
                               (if v - lo < hi - v \<or> (v - lo = hi - v \<and> even (lo div u))
                                then [lo, hi] else [hi, lo]))
                   [1 ..< Suc (length (showNat v))]))"

definition exponentForm :: "nat \<Rightarrow> string" where
  "exponentForm c =
     (let ds = showNat c; sig = rev (dropWhile (\<lambda>d. d = CHR ''0'') (rev ds))
      in hd sig # (if tl sig = [] then [] else ''.'' @ tl sig) @ ''e+'' @ showNat (length ds - 1))"

definition showDouble :: "nat \<Rightarrow> string" where
  "showDouble v =
     (if v < 2 ^ 53 then showNat v
      else (let c = shortestDecimal v in if c < 10 ^ 21 then showNat c else exponentForm c))"

definition showNumber :: "number \<Rightarrow> string" where
  "showNumber x =
     (case x of
        NaN \<Rightarrow> ''NaN''
      | Infinity positive \<Rightarrow> (if positive then ''Infinity'' else ''-Infinity'')
      | Finite i \<Rightarrow> (if i < 0 then ''-'' @ showDouble (nat (- i)) else showDouble (nat i)))"

text \<open>
  \<open>parseInt10 s\<close> is \<^verbatim>\<open>parseInt(s, 10)\<close>: leading white space is skipped, then an optional sign,
  then the longest run of decimal digits is read; the result is \<^verbatim>\<open>NaN\<close> when there is no digit,
  and otherwise the number value of the integer read (V8 rounds it to the nearest double).
\<close>

definition digitsValue :: "string \<Rightarrow> nat" where
  "digitsValue ds = foldl (\<lambda>acc c. 10 * acc + ((of_char c :: nat) - 48)) 0 ds"

definition parseInt10 :: "string \<Rightarrow> number" where
  "parseInt10 s =
     (let t = dropWhile isSpace s;
          neg = (take 1 t = ''-'');
          u = (if take 1 t = ''-'' \<or> take 1 t = ''+'' then drop 1 t else t);
          ds = takeWhile isDigit u
      in if ds = [] then NaN
         else toNumber (if neg then - int (digitsValue ds) else int (digitsValue ds)))"




text \<open>
  \<^verbatim>\<open>encodeURIComponent\<close>: letters, digits and \<^verbatim>\<open>- _ . ! ~ * ' ( )\<close> stay; every other character
  is replaced by its UTF-8 bytes, each written \<^verbatim>\<open>%XX\<close> with upper-case hexadecimal digits: one
  byte below U+0080, two bytes for U+0080 to U+00FF.
\<close>

definition hexDigit :: "nat \<Rightarrow> char" where
  "hexDigit n = ''0123456789ABCDEF'' ! n"

definition percentByte :: "nat \<Rightarrow> string" where
  "percentByte b = [CHR ''%'', hexDigit (b div 16), hexDigit (b mod 16)]"

definition uriUnreserved :: "char \<Rightarrow> bool" where
  "uriUnreserved c =
     (isUpper c \<or> isLower c \<or> isDigit c
      \<or> c \<in> set [CHR ''-'', CHR ''_'', CHR ''.'', CHR ''!'', CHR ''~'', CHR ''*'', CHR 0x27,
                  CHR ''('', CHR '')''])"

definition encodeURIComponent :: "string \<Rightarrow> string" where
  "encodeURIComponent s =
     concat (map (\<lambda>c. let n = (of_char c :: nat)
                       in if uriUnreserved c then [c]
                          else if n < 128 then percentByte n
                          else percentByte (192 + n div 64) @ percentByte (128 + n mod 64)) s)"

text \<open>\<^verbatim>\<open>output.trim().split('\n').filter(...)\<close>: the lines of a command's output.\<close>

definition outputLines :: "(string \<Rightarrow> bool) \<Rightarrow> string \<Rightarrow> string list" where
  "outputLines keep out = filter keep (splitOn CHR 0x0A (trim out))"

subsection \<open>Records of the adapter interface (base-adapter.ts)\<close>





text \<open>
  \<^verbatim>\<open>/^[A-Za-z0-9_.-]+\/[A-Za-z0-9_.-]+$/.test(repo)\<close> and \<^verbatim>\<open>/^[A-Za-z0-9_.-]+$/.test(name)\<close>.
\<close>

definition repoChar :: "char \<Rightarrow> bool" where
  "repoChar c = (isUpper c \<or> isLower c \<or> isDigit c \<or> c \<in> set [CHR ''_'', CHR ''.'', CHR ''-''])"

definition repoFormatOk :: "string \<Rightarrow> bool" where
  "repoFormatOk rp =
     ([(a, b). (a, r1) \<leftarrow> plusGreedy repoChar rp, r2 \<leftarrow> lit ''/'' r1,
               (b, r3) \<leftarrow> plusGreedy repoChar r2, eos r3] \<noteq> [])"


subsection \<open>GitHubAdapter\<close>



definition GitHub_getBranches ::
  "world \<Rightarrow> invocation list \<Rightarrow> string \<Rightarrow> (error + string list) \<times> invocation list" where
  "GitHub_getBranches w log rp =
     (let (r, log') =
            (if \<not> repoFormatOk rp
             then (Inl (Error ''Invalid repository format. Expected: owner/repo''), log)
             else (let apiEndpoint = ''repos/'' @ rp @ ''/branches''
                   in case execFileSync w log ''gh''
                             [''api'', apiEndpoint, ''--paginate'', ''--jq'', ''.[].name''] None of
                        (Inl e, log') \<Rightarrow> (Inl e, log')
                      | (Inr out, log') \<Rightarrow> (Inr (outputLines (\<lambda>b. length b > 0) out), log')))
      in (catchAs (''Failed to get branches for '' @ rp) ''github'' r, log'))"


text \<open>
  The inner \<^verbatim>\<open>try\<close> of \<^verbatim>\<open>addGitRemote\<close> (both adapters): ask for the URL of \<^verbatim>\<open>origin\<close> and,
  if that succeeds, remove \<^verbatim>\<open>origin\<close>; whatever is thrown is dropped (``No origin exists'').
\<close>

definition removeOriginIfExists :: "world \<Rightarrow> invocation list \<Rightarrow> string \<Rightarrow> invocation list" where
  "removeOriginIfExists w log path =
     (case execSync w log ''git remote get-url origin'' (Some path) of
        (Inl e, log1) \<Rightarrow> log1
      | (Inr _, log1) \<Rightarrow>
          (case execSync w log1 ''git remote remove origin'' (Some path) of
             (Inl e, log2) \<Rightarrow> log2
           | (Inr _, log2) \<Rightarrow> log2))"

definition GitHub_addGitRemote ::
  "world \<Rightarrow> invocation list \<Rightarrow> string \<Rightarrow> string \<Rightarrow> (error + string) \<times> invocation list" where
  "GitHub_addGitRemote w log path repoFullName =
     (let (r, log') =
            (if \<not> repoFormatOk repoFullName
             then (Inl (Error ''Invalid repository format. Expected: owner/repo''), log)
             else (let remoteUrl = ''https://github.com/'' @ repoFullName @ ''.git'';
                       log1 = removeOriginIfExists w log path
                   in case execFileSync w log1 ''git'' [''remote'', ''add'', ''origin'', remoteUrl]
                             (Some path) of
                        (Inl e, log2) \<Rightarrow> (Inl e, log2)
                      | (Inr _, log2) \<Rightarrow> (Inr remoteUrl, log2)))
      in (catchAs ''Failed to add git remote'' ''github'' r, log'))"



subsection \<open>GitLabAdapter\<close>

text \<open>
  The module-level \<^verbatim>\<open>projectIdCache\<close> (a \<^verbatim>\<open>Map<string, number>\<close>) and the log of processes
  started are the state the methods of the GitLab adapter thread.
\<close>

record gitlab_state =
  projectIdCache :: "string \<rightharpoonup> number"
  started :: "invocation list"

definition getHostnameArgs :: "GitPlatform \<Rightarrow> string list" where
  "getHostnameArgs platform = (if isSelfHosted platform then [''--hostname'', host platform] else [])"

text \<open>\<^verbatim>\<open>if (this.platform.isSelfHosted) { args.push(...this.getHostnameArgs()) }\<close>.\<close>

definition hostArgs :: "GitPlatform \<Rightarrow> string list" where
  "hostArgs platform = (if isSelfHosted platform then getHostnameArgs platform else [])"

definition getProjectId ::
  "GitPlatform \<Rightarrow> world \<Rightarrow> gitlab_state \<Rightarrow> string \<Rightarrow> (error + number) \<times> gitlab_state" where
  "getProjectId platform w s fullPath =
     (case projectIdCache s fullPath of
        Some cached \<Rightarrow> (Inr cached, s)
      | None \<Rightarrow>
          (let encodedPath = encodeURIComponent fullPath;
               args = [''api'', ''projects/'' @ encodedPath, ''--jq'', ''.id''] @ hostArgs platform
           in case execFileSync w (started s) ''glab'' args None of
                (Inl e, log') \<Rightarrow>
                  (catchAs (''Failed to get project ID for '' @ fullPath) ''gitlab'' (Inl e),
                   s\<lparr>started := log'\<rparr>)
              | (Inr out, log') \<Rightarrow>
                  (let projectId = parseInt10 (trim out)
                   in (Inr projectId,
                       s\<lparr>projectIdCache := (projectIdCache s)(fullPath \<mapsto> projectId),
                         started := log'\<rparr>))))"

definition GitLab_getBranches ::
  "GitPlatform \<Rightarrow> world \<Rightarrow> gitlab_state \<Rightarrow> string \<Rightarrow> (error + string list) \<times> gitlab_state" where
  "GitLab_getBranches platform w s rp =
     (let (r, s') =
            (case getProjectId platform w s rp of
               (Inl e, s1) \<Rightarrow> (Inl e, s1)
             | (Inr projectId, s1) \<Rightarrow>
                 (let args = [''api'', ''projects/'' @ showNumber projectId @ ''/repository/branches'',
                              ''--jq'', ''.[].name''] @ hostArgs platform
                  in case execFileSync w (started s1) ''glab'' args None of
                       (Inl e, log') \<Rightarrow> (Inl e, s1\<lparr>started := log'\<rparr>)
                     | (Inr out, log') \<Rightarrow>
                         (Inr (outputLines (\<lambda>b. length b > 0) out), s1\<lparr>started := log'\<rparr>)))
      in (catchAs (''Failed to get branches for '' @ rp) ''gitlab'' r, s'))"







subsection \<open>Failures of an operation\<close>






subsection \<open>Release creation of the GitLab adapter\<close>

record CreateReleaseOptions =
  rel_projectPath :: string
  rel_version :: string
  rel_tagName :: string
  rel_title :: string
  rel_body :: string
  rel_draft :: "bool option"
  rel_prerelease :: "bool option"

record CreateReleaseResult =
  res_success :: bool
  res_releaseUrl :: "string option"
  res_tagName :: "string option"
  res_error :: "string option"

text \<open>
  The files that exist, with their content; \<^verbatim>\<open>existsSync(f)\<close> is \<open>f \<in> dom files\<close>.
\<close>

type_synonym files = "string \<rightharpoonup> string"

text \<open>
  How the spawned \<^verbatim>\<open>glab\<close> process ends for the promise around it: \<^verbatim>\<open>spawn\<close> throws, the
  process emits \<^verbatim>\<open>error\<close>, or it emits \<^verbatim>\<open>exit\<close> with a code (\<^verbatim>\<open>null\<close> when a signal killed it)
  after writing to standard output and standard error.
\<close>

datatype spawn_outcome =
    SpawnThrew error
  | ErrorEvent error
  | Exit "int option" string string

text \<open>
  What \<^verbatim>\<open>createRelease\<close> takes from outside: the temporary directory, the clock
  (\<^verbatim>\<open>Date.now()\<close>, an integer number of milliseconds of at most 8.64e15 in absolute value, which
  prints digit by digit), \<^verbatim>\<open>path.join\<close> of a directory and a file name, whether writing the notes file
  and deleting it throw (a write that throws creates no file), how the spawned process ends,
  and what \<^verbatim>\<open>getReleaseUrl\<close> returns (its whole body is inside a \<^verbatim>\<open>try\<close> whose handler returns
  \<^verbatim>\<open>undefined\<close>, so it returns a URL or \<^verbatim>\<open>undefined\<close> and never throws).
\<close>

record release_env =
  tmpdir :: string
  dateNow :: int
  joinPath :: "string \<Rightarrow> string \<Rightarrow> string"
  writeFileSync :: "string \<Rightarrow> string \<Rightarrow> error option"
  spawnGlab :: "string list \<Rightarrow> string \<Rightarrow> spawn_outcome"
  getReleaseUrl :: "string \<Rightarrow> string \<Rightarrow> string option"
  unlinkSync :: "string \<Rightarrow> error option"

text \<open>What the call did, in order.\<close>

datatype release_event =
    Wrote string string
  | Started invocation
  | Unlinked string
  | UnlinkFailed string

text \<open>
  The name of the notes file, \<^verbatim>\<open>glab-release-notes-<Date.now()>.md\<close>, and its place in the
  temporary directory.
\<close>

definition notesBaseName :: "int \<Rightarrow> string" where
  "notesBaseName now = ''glab-release-notes-'' @ showInt now @ ''.md''"

definition notesFileName :: "release_env \<Rightarrow> string" where
  "notesFileName env = joinPath env (tmpdir env) (notesBaseName (dateNow env))"

text \<open>The exit code, a number or \<^verbatim>\<open>null\<close>, as a template literal prints it.\<close>

definition showExitCode :: "int option \<Rightarrow> string" where
  "showExitCode code = (case code of None \<Rightarrow> ''null'' | Some n \<Rightarrow> showInt n)"

text \<open>\<^verbatim>\<open>error instanceof Error ? error.message : 'Unknown error'\<close>.\<close>

definition errorMessage :: "error \<Rightarrow> string" where
  "errorMessage e = (if instanceofError e then message e else ''Unknown error'')"

text \<open>
  The body of the \<^verbatim>\<open>try\<close> block: the outcome (a thrown error or the result returned), the files
  and the events.
\<close>

definition createReleaseBody ::
  "release_env \<Rightarrow> GitPlatform \<Rightarrow> files \<Rightarrow> CreateReleaseOptions
     \<Rightarrow> (error + CreateReleaseResult) \<times> files \<times> release_event list" where
  "createReleaseBody env platform fs options =
     (let notesFile = notesFileName env
      in case writeFileSync env notesFile (rel_body options) of
           Some e \<Rightarrow> (Inl e, fs, [])
         | None \<Rightarrow>
             (let fs1 = fs(notesFile \<mapsto> rel_body options);
                  args = [''release'', ''create'', rel_tagName options, ''--notes-file'', notesFile]
                         @ hostArgs platform;
                  evs = [Wrote notesFile (rel_body options),
                         Started (Spawn ''glab'' args (Some (rel_projectPath options)))]
              in case spawnGlab env args (rel_projectPath options) of
                   SpawnThrew e \<Rightarrow> (Inl e, fs1, evs)
                 | ErrorEvent e \<Rightarrow> (Inl e, fs1, evs)
                 | Exit code out err \<Rightarrow>
                     (if code = Some 0
                      then (let releaseUrl = getReleaseUrl env (rel_projectPath options)
                                               (rel_tagName options)
                            in (Inr \<lparr> res_success = True, res_releaseUrl = releaseUrl,
                                      res_tagName = Some (rel_tagName options),
                                      res_error = None \<rparr>, fs1, evs))
                      else (Inl (Error (if err \<noteq> [] then err
                                        else ''glab exited with code '' @ showExitCode code)),
                            fs1, evs))))"

text \<open>
  \<^verbatim>\<open>createRelease\<close>: the \<^verbatim>\<open>try\<close> body, the \<^verbatim>\<open>catch\<close> handler that turns a thrown error into a
  result, and the \<^verbatim>\<open>finally\<close> block, which deletes the notes file if it exists and ignores an
  error of the deletion.
\<close>

definition GitLab_createRelease ::
  "release_env \<Rightarrow> GitPlatform \<Rightarrow> files \<Rightarrow> CreateReleaseOptions
     \<Rightarrow> (error + CreateReleaseResult) \<times> files \<times> release_event list" where
  "GitLab_createRelease env platform fs options =
     (case createReleaseBody env platform fs options of
        (r, fs1, evs) \<Rightarrow>
          (let notesFile = notesFileName env;
               returned = (case r of
                             Inr res \<Rightarrow> Inr res
                           | Inl e \<Rightarrow>
                               Inr \<lparr> res_success = False, res_releaseUrl = None, res_tagName = None,
                                     res_error = Some (errorMessage e) \<rparr>)
           in if notesFile \<in> dom fs1
              then (case unlinkSync env notesFile of
                      None \<Rightarrow> (returned, fs1(notesFile := None), evs @ [Unlinked notesFile])
                    | Some e \<Rightarrow> (returned, fs1, evs @ [UnlinkFailed notesFile]))
              else (returned, fs1, evs)))"

subsection \<open>The interactive login (startAuth)\<close>























section \<open>Properties of the regular-expression pieces\<close>

lemma lit_iff: "r \<in> set (lit s inp) \<longleftrightarrow> inp = s @ r"
proof
  assume "r \<in> set (lit s inp)"
  then have t: "take (length s) inp = s" and d: "r = drop (length s) inp"
    by (simp_all add: lit_def split: if_splits)
  have "inp = take (length s) inp @ drop (length s) inp" by simp
  then show "inp = s @ r" using t d by simp
next
  assume "inp = s @ r"
  then show "r \<in> set (lit s inp)" by (simp add: lit_def)
qed


lemma plusLazy_D:
  "(m, r) \<in> set (plusLazy P inp) \<Longrightarrow> inp = m @ r \<and> m \<noteq> [] \<and> (\<forall>c \<in> set m. P c)"
proof (induction inp arbitrary: m)
  case Nil
  then show ?case by simp
next
  case (Cons a inp)
  from Cons.prems have Pa: "P a"
    by (simp split: if_splits)
  from Cons.prems Pa
  have "(m, r) = ([a], inp) \<or> (\<exists>m'. m = a # m' \<and> (m', r) \<in> set (plusLazy P inp))"
    by (auto simp: image_iff)
  then show ?case
  proof
    assume "(m, r) = ([a], inp)"
    then show ?thesis using Pa by simp
  next
    assume "\<exists>m'. m = a # m' \<and> (m', r) \<in> set (plusLazy P inp)"
    then obtain m' where m: "m = a # m'" and mem: "(m', r) \<in> set (plusLazy P inp)" by blast
    from Cons.IH [OF mem] show ?thesis using m Pa by simp
  qed
qed

lemma plusLazy_I:
  "m \<noteq> [] \<Longrightarrow> \<forall>c \<in> set m. P c \<Longrightarrow> (m, r) \<in> set (plusLazy P (m @ r))"
proof (induction m)
  case Nil
  then show ?case by simp
next
  case (Cons a m)
  show ?case
  proof (cases "m = []")
    case True
    then show ?thesis using Cons.prems by simp
  next
    case False
    with Cons have "(m, r) \<in> set (plusLazy P (m @ r))" by simp
    then have "(a # m, r) \<in> (\<lambda>(m, r). (a # m, r)) ` set (plusLazy P (m @ r))"
      by (rule rev_image_eqI) simp
    then show ?thesis using Cons.prems by simp
  qed
qed

lemma plusLazy_iff:
  "(m, r) \<in> set (plusLazy P inp) \<longleftrightarrow> inp = m @ r \<and> m \<noteq> [] \<and> (\<forall>c \<in> set m. P c)"
  using plusLazy_D plusLazy_I by blast

lemma plusGreedy_iff:
  "(m, r) \<in> set (plusGreedy P inp) \<longleftrightarrow> inp = m @ r \<and> m \<noteq> [] \<and> (\<forall>c \<in> set m. P c)"
  by (simp add: plusGreedy_def plusLazy_iff)


lemma mem_guard: "(x \<in> set (if b then [y] else [])) = (b \<and> x = y)"
  by (cases b) simp_all

section \<open>The remote URL parser\<close>













text \<open>
  C1. A remote URL whose owner part has nested namespaces is to be parsed into a descriptor
  whose owner is the whole namespace, for instance \<^verbatim>\<open>git@gitlab.com:group/subgroup/repo.git\<close>
  into owner \<^verbatim>\<open>group/subgroup\<close>. The owner group of both patterns is \<^verbatim>\<open>[^/]+\<close>, so neither
  pattern matches such a URL: the parser returns null for the SSH form and for the HTTPS form.
\<close>

theorem parse_nested_groups_null:
  "parseGitRemoteUrl ''git@gitlab.com:group/subgroup/repo.git'' = None
   \<and> parseGitRemoteUrl ''https://gitlab.com/group/subgroup/repo.git'' = None"
  by code_simp

text \<open>
  C2. In every descriptor the parser returns, exactly one of \<^verbatim>\<open>isGitHub\<close> and \<^verbatim>\<open>isGitLab\<close> is to
  be true and \<^verbatim>\<open>type\<close> is to agree with it. For a host that contains both \<^verbatim>\<open>github\<close> and
  \<^verbatim>\<open>gitlab\<close> the parser returns a descriptor of type \<^verbatim>\<open>github\<close> in which both flags are true.
\<close>

theorem parse_both_flags_true:
  "parseGitRemoteUrl ''git@gitlab.github.example.com:owner/repo.git'' =
     Some \<lparr> ptype = ''github'', host = ''gitlab.github.example.com'', owner = ''owner'',
            repo = ''repo'', fullName = ''owner/repo'', isGitHub = True, isGitLab = True,
            isSelfHosted = True \<rparr>"
  by code_simp






section \<open>The detection cache\<close>

lemma detect_hit:
  assumes "resolve p \<in> dom (platformCache s)" "forceRefresh options \<noteq> Some True"
  shows "detectGitPlatform resolve w p options s =
           ((case platformCache s (resolve p) of None \<Rightarrow> None | Some v \<Rightarrow> v), s)"
  using assms by (cases "forceRefresh options") (auto simp: detectGitPlatform_def Let_def)

lemma detect_miss:
  assumes "resolve p \<notin> dom (platformCache s) \<or> forceRefresh options = Some True"
  shows "\<exists>r. detectGitPlatform resolve w p options s =
           (r, s\<lparr>platformCache := (platformCache s)(resolve p \<mapsto> r),
                 invocations := invocations s @ [gitRemoteGetUrl (resolve p) options]\<rparr>)
         \<and> (\<forall>e. w (invocations s) (gitRemoteGetUrl (resolve p) options) = Inl e \<longrightarrow> r = None)"
  using assms
  by (auto simp: detectGitPlatform_def getGitRemoteUrl_def execSync_def gitRemoteGetUrl_def Let_def
           split: sum.splits option.splits)

lemma detect_other_preserves:
  assumes "platformCache s k = Some v" "\<not> (resolve q = k \<and> forceRefresh options = Some True)"
  shows "platformCache (snd (detectGitPlatform resolve w q options s)) k = Some v"
proof (cases "resolve q \<in> dom (platformCache s) \<and> forceRefresh options \<noteq> Some True")
  case True
  then show ?thesis using assms by (simp add: detect_hit)
next
  case False
  then have m: "resolve q \<notin> dom (platformCache s) \<or> forceRefresh options = Some True" by blast
  from m detect_miss [where resolve = resolve and p = q and s = s and options = options and w = w]
  obtain r where
    "detectGitPlatform resolve w q options s =
           (r, s\<lparr>platformCache := (platformCache s)(resolve q \<mapsto> r),
                 invocations := invocations s @ [gitRemoteGetUrl (resolve q) options]\<rparr>)"
    by blast
  moreover have "resolve q \<noteq> k" using assms m by auto
  ultimately show ?thesis using assms by simp
qed

lemma detectMany_preserves:
  assumes "platformCache s (resolve p) = Some v" "\<forall>c \<in> set calls. \<not> forcedOn resolve p c"
  shows "platformCache (detectMany resolve w calls s) (resolve p) = Some v"
  using assms
proof (induction calls arbitrary: s)
  case Nil
  then show ?case by simp
next
  case (Cons c calls)
  obtain q options where c: "c = (q, options)" by (cases c)
  from Cons.prems(2) c have nf: "\<not> (resolve q = resolve p \<and> forceRefresh options = Some True)"
    by (simp add: forcedOn_def)
  have "platformCache (snd (detectGitPlatform resolve w q options s)) (resolve p) = Some v"
    using Cons.prems(1) nf
      detect_other_preserves [where resolve = resolve and q = q and s = s and k = "resolve p"]
    by blast
  then show ?case using Cons.IH Cons.prems(2) c by simp
qed

lemma detect_stores:
  "platformCache (snd (detectGitPlatform resolve w p options s)) (resolve p)
     = Some (fst (detectGitPlatform resolve w p options s))"
proof (cases "resolve p \<in> dom (platformCache s) \<and> forceRefresh options \<noteq> Some True")
  case True
  then show ?thesis by (auto simp: detect_hit)
next
  case False
  then have m: "resolve p \<notin> dom (platformCache s) \<or> forceRefresh options = Some True" by blast
  from m detect_miss [where resolve = resolve and p = p and s = s and options = options and w = w]
  obtain r where
    "detectGitPlatform resolve w p options s =
           (r, s\<lparr>platformCache := (platformCache s)(resolve p \<mapsto> r),
                 invocations := invocations s @ [gitRemoteGetUrl (resolve p) options]\<rparr>)"
    by blast
  then show ?thesis by simp
qed

text \<open>
  C5. A first call of \<^verbatim>\<open>detectGitPlatform\<close> for a path (its resolved path has no cache entry)
  starts exactly one process, the query of the remote URL in the resolved directory, and
  stores its result under the resolved path; the result is null when the git command throws.
  After any further calls of \<^verbatim>\<open>detectGitPlatform\<close>, none of which forces a refresh of that
  resolved path and with no clearing of the cache between them, a call for the same resolved
  path without \<^verbatim>\<open>forceRefresh\<close> returns the same value, starts no process and leaves the state
  as it is. A call on a cleared cache starts exactly one process again. In general, every
  call stores what it returns under the resolved path, and every call without
  \<^verbatim>\<open>forceRefresh\<close> that finds an entry for its resolved path returns that entry, starts no
  process and changes nothing.
\<close>

theorem detect_cache_behaviour:
  assumes first: "resolve p \<notin> dom (platformCache s)"
    and call: "detectGitPlatform resolve w p options s = (r, s')"
    and later: "\<forall>c \<in> set calls. \<not> forcedOn resolve p c"
    and same: "resolve p' = resolve p"
    and noforce: "forceRefresh options' \<noteq> Some True"
  shows "invocations s' = invocations s @ [gitRemoteGetUrl (resolve p) options]
         \<and> platformCache s' (resolve p) = Some r
         \<and> ((\<exists>e. w (invocations s) (gitRemoteGetUrl (resolve p) options) = Inl e) \<longrightarrow> r = None)
         \<and> detectGitPlatform resolve w p' options' (detectMany resolve w calls s')
             = (r, detectMany resolve w calls s')
         \<and> (\<exists>r'. detectGitPlatform resolve w p' options' (clearPlatformCache t)
                    = (r', (clearPlatformCache t)
                             \<lparr>platformCache := [resolve p \<mapsto> r'],
                              invocations := invocations t @ [gitRemoteGetUrl (resolve p) options']\<rparr>))
         \<and> (platformCache u (resolve p') = Some v
              \<longrightarrow> detectGitPlatform resolve w p' options' u = (v, u))
         \<and> platformCache (snd (detectGitPlatform resolve w p anyOptions u)) (resolve p)
             = Some (fst (detectGitPlatform resolve w p anyOptions u))"
proof -
  from first have m: "resolve p \<notin> dom (platformCache s) \<or> forceRefresh options = Some True"
    by blast
  from m detect_miss [where resolve = resolve and p = p and s = s and options = options and w = w]
  obtain r0 where
    d: "detectGitPlatform resolve w p options s =
           (r0, s\<lparr>platformCache := (platformCache s)(resolve p \<mapsto> r0),
                  invocations := invocations s @ [gitRemoteGetUrl (resolve p) options]\<rparr>)"
    and thr: "\<forall>e. w (invocations s) (gitRemoteGetUrl (resolve p) options) = Inl e \<longrightarrow> r0 = None"
    by blast
  from d call have r0: "r0 = r"
    and s': "s' = s\<lparr>platformCache := (platformCache s)(resolve p \<mapsto> r),
                     invocations := invocations s @ [gitRemoteGetUrl (resolve p) options]\<rparr>"
    by simp_all
  have c1: "invocations s' = invocations s @ [gitRemoteGetUrl (resolve p) options]"
    by (simp add: s')
  have c2: "platformCache s' (resolve p) = Some r"
    by (simp add: s')
  have c3: "(\<exists>e. w (invocations s) (gitRemoteGetUrl (resolve p) options) = Inl e) \<longrightarrow> r = None"
    using thr r0 by blast
  let ?s = "detectMany resolve w calls s'"
  have kept: "platformCache ?s (resolve p') = Some r"
    using detectMany_preserves [where resolve = resolve and p = p and s = s' and v = r
        and calls = calls and w = w] c2 later same by simp
  then have "resolve p' \<in> dom (platformCache ?s)" by blast
  from detect_hit [where resolve = resolve and p = p' and s = ?s and options = options' and w = w,
      OF this noforce] kept
  have c4: "detectGitPlatform resolve w p' options' ?s = (r, ?s)" by simp
  have "resolve p' \<notin> dom (platformCache (clearPlatformCache t))
          \<or> forceRefresh options' = Some True"
    by (simp add: clearPlatformCache_def)
  from this detect_miss [where resolve = resolve and p = p' and s = "clearPlatformCache t"
      and options = options' and w = w]
  obtain r' where
    "detectGitPlatform resolve w p' options' (clearPlatformCache t) =
       (r', (clearPlatformCache t)
              \<lparr>platformCache := (platformCache (clearPlatformCache t))(resolve p' \<mapsto> r'),
               invocations := invocations (clearPlatformCache t)
                               @ [gitRemoteGetUrl (resolve p') options']\<rparr>)"
    by blast
  then have c5: "\<exists>r'. detectGitPlatform resolve w p' options' (clearPlatformCache t)
                    = (r', (clearPlatformCache t)
                             \<lparr>platformCache := [resolve p \<mapsto> r'],
                              invocations := invocations t @ [gitRemoteGetUrl (resolve p) options']\<rparr>)"
    using same by (simp add: clearPlatformCache_def)
  have c6: "platformCache u (resolve p') = Some v
              \<longrightarrow> detectGitPlatform resolve w p' options' u = (v, u)"
  proof
    assume a: "platformCache u (resolve p') = Some v"
    then have "resolve p' \<in> dom (platformCache u)" by blast
    from detect_hit [where resolve = resolve and p = p' and s = u and options = options' and w = w,
        OF this noforce] a
    show "detectGitPlatform resolve w p' options' u = (v, u)" by simp
  qed
  have c7: "platformCache (snd (detectGitPlatform resolve w p anyOptions u)) (resolve p)
             = Some (fst (detectGitPlatform resolve w p anyOptions u))"
    by (rule detect_stores)
  from c1 c2 c3 c4 c5 c6 c7 show ?thesis by blast
qed

theorem detect_cache_behaviour_witness:
  "(let w = (\<lambda>log call. if log = [] then Inr ''git@github.com:owner/repo.git\<newline>''
                          else Inl (Error ''not a git repository''));
        options = \<lparr>remoteName = None, forceRefresh = None\<rparr>;
        s = \<lparr>platformCache = Map.empty, invocations = []\<rparr>;
        d = detectGitPlatform (\<lambda>x. x) w ''/fake/path'' options s;
        s' = detectMany (\<lambda>x. x) w [(''/other'', options)] (snd d)
    in fst d = Some \<lparr> ptype = ''github'', host = ''github.com'', owner = ''owner'',
                       repo = ''repo'', fullName = ''owner/repo'', isGitHub = True,
                       isGitLab = False, isSelfHosted = False \<rparr>
       \<and> invocations (snd d) = [ExecSync ''git remote get-url origin'' (Some ''/fake/path'')]
       \<and> platformCache (snd d) ''/fake/path'' = Some (fst d)
       \<and> platformCache s' ''/other'' = Some None
       \<and> detectGitPlatform (\<lambda>x. x) w ''/fake/path'' options s' = (fst d, s'))"
proof -
  define w :: world where
    "w = (\<lambda>log call. if log = [] then Inr ''git@github.com:owner/repo.git\<newline>''
                          else Inl (Error ''not a git repository''))"
  define options where "options = \<lparr>remoteName = None, forceRefresh = None\<rparr>"
  define s where "s = \<lparr>platformCache = Map.empty, invocations = []\<rparr>"
  define d where "d = detectGitPlatform (\<lambda>x. x) w ''/fake/path'' options s"
  define s' where "s' = detectMany (\<lambda>x. x) w [(''/other'', options)] (snd d)"
  have first: "(\<lambda>x. x) ''/fake/path'' \<notin> dom (platformCache s)"
    by (simp add: s_def)
  have call: "detectGitPlatform (\<lambda>x. x) w ''/fake/path'' options s = (fst d, snd d)"
    by (simp add: d_def)
  have later: "\<forall>c \<in> set [(''/other'', options)]. \<not> forcedOn (\<lambda>x. x) ''/fake/path'' c"
    by (simp add: forcedOn_def)
  have noforce: "forceRefresh options \<noteq> Some True"
    by (simp add: options_def)
  note th = detect_cache_behaviour [where resolve = "\<lambda>x. x" and p' = "''/fake/path''" and t = s,
      OF first call later refl noforce]
  have tr: "trim ''git@github.com:owner/repo.git\<newline>'' = ''git@github.com:owner/repo.git''"
    by code_simp
  have pr: "parseGitRemoteUrl ''git@github.com:owner/repo.git'' =
      Some \<lparr> ptype = ''github'', host = ''github.com'', owner = ''owner'',
                       repo = ''repo'', fullName = ''owner/repo'', isGitHub = True,
                       isGitLab = False, isSelfHosted = False \<rparr>"
    by code_simp
  have dv: "d = (Some \<lparr> ptype = ''github'', host = ''github.com'', owner = ''owner'',
                       repo = ''repo'', fullName = ''owner/repo'', isGitHub = True,
                       isGitLab = False, isSelfHosted = False \<rparr>,
                 \<lparr>platformCache = [''/fake/path'' \<mapsto> Some \<lparr> ptype = ''github'', host = ''github.com'',
                       owner = ''owner'', repo = ''repo'', fullName = ''owner/repo'', isGitHub = True,
                       isGitLab = False, isSelfHosted = False \<rparr>],
                  invocations = [ExecSync ''git remote get-url origin'' (Some ''/fake/path'')]\<rparr>)"
    unfolding d_def detectGitPlatform_def getGitRemoteUrl_def execSync_def
    by (simp add: s_def options_def w_def remoteOrOrigin_def tr pr Let_def)
  have v: "fst d = Some \<lparr> ptype = ''github'', host = ''github.com'', owner = ''owner'',
                       repo = ''repo'', fullName = ''owner/repo'', isGitHub = True,
                       isGitLab = False, isSelfHosted = False \<rparr>"
    by (simp add: dv)
  have i: "invocations (snd d) = [ExecSync ''git remote get-url origin'' (Some ''/fake/path'')]"
    using th by (simp add: s_def gitRemoteGetUrl_def remoteOrOrigin_def options_def)
  have o: "platformCache s' ''/other'' = Some None"
    unfolding s'_def dv detectMany.simps detectGitPlatform_def getGitRemoteUrl_def execSync_def
    by (simp add: w_def options_def remoteOrOrigin_def Let_def)
  from th v i o show ?thesis
    unfolding Let_def w_def [symmetric] options_def [symmetric] s_def [symmetric]
      d_def [symmetric] s'_def [symmetric]
    by simp
qed

section \<open>The adapter factory\<close>

text \<open>
  C6. \<^verbatim>\<open>createAdapter\<close> returns a \<^verbatim>\<open>GitHubAdapter\<close> holding the descriptor when its type
  is \<^verbatim>\<open>github\<close>, a \<^verbatim>\<open>GitLabAdapter\<close> when it is \<^verbatim>\<open>gitlab\<close>, and throws the error
  \<^verbatim>\<open>Unsupported platform type: <type>\<close> for every other type. \<^verbatim>\<open>getAdapter\<close> throws whenever
  \<^verbatim>\<open>detectGitPlatform\<close> returns null and otherwise returns \<^verbatim>\<open>createAdapter\<close> of the descriptor
  detected; the state it leaves is the one the detection leaves.
\<close>

theorem factory_dispatch:
  "(ptype platform = ''github'' \<longrightarrow> createAdapter platform = Inr (GitHubAdapter platform))
   \<and> (ptype platform = ''gitlab'' \<longrightarrow> createAdapter platform = Inr (GitLabAdapter platform))
   \<and> (ptype platform \<noteq> ''github'' \<and> ptype platform \<noteq> ''gitlab''
        \<longrightarrow> createAdapter platform = Inl (Error (''Unsupported platform type: '' @ ptype platform)))
   \<and> (detectGitPlatform resolve w projectPath \<lparr>remoteName = None, forceRefresh = None\<rparr> s = (None, s')
        \<longrightarrow> (\<exists>e. getAdapter resolve w projectPath s = (Inl e, s')))
   \<and> (detectGitPlatform resolve w projectPath \<lparr>remoteName = None, forceRefresh = None\<rparr> s
          = (Some detected, s')
        \<longrightarrow> getAdapter resolve w projectPath s = (createAdapter detected, s'))"
  by (simp add: createAdapter_def getAdapter_def)

theorem factory_dispatch_witness:
  "createAdapter (createPlatform ''github.com'' ''owner'' ''repo'')
     = Inr (GitHubAdapter (createPlatform ''github.com'' ''owner'' ''repo''))
   \<and> createAdapter (createPlatform ''gitlab.com'' ''acme'' ''widgets'')
     = Inr (GitLabAdapter (createPlatform ''gitlab.com'' ''acme'' ''widgets''))
   \<and> createAdapter ((createPlatform ''bitbucket.org'' ''owner'' ''repo'')\<lparr>ptype := ''bitbucket''\<rparr>)
     = Inl (Error ''Unsupported platform type: bitbucket'')
   \<and> (\<exists>e. getAdapter (\<lambda>x. x) (\<lambda>log call. Inl (Error ''not a git repository'')) ''/repo''
              \<lparr>platformCache = Map.empty, invocations = []\<rparr>
            = (Inl e, \<lparr>platformCache = [''/repo'' \<mapsto> None],
                       invocations = [ExecSync ''git remote get-url origin'' (Some ''/repo'')]\<rparr>))
   \<and> (\<exists>a. getAdapter (\<lambda>x. x) (\<lambda>log call. Inr ''git@gitlab.com:acme/widgets.git\<newline>'') ''/repo''
              \<lparr>platformCache = Map.empty, invocations = []\<rparr>
            = (Inr a, \<lparr>platformCache = [''/repo'' \<mapsto> Some (getPlatform a)],
                       invocations = [ExecSync ''git remote get-url origin'' (Some ''/repo'')]\<rparr>)
          \<and> getCliName a = ''glab'' \<and> fullName (getPlatform a) = ''acme/widgets'')"
proof -
  let ?s = "\<lparr>platformCache = Map.empty, invocations = []\<rparr>"
  let ?o = "\<lparr>remoteName = None, forceRefresh = None\<rparr>"
  let ?w1 = "\<lambda>(log :: invocation list) (call :: invocation). (Inl (Error ''not a git repository'') :: error + string)"
  let ?w2 = "\<lambda>(log :: invocation list) (call :: invocation). (Inr ''git@gitlab.com:acme/widgets.git\<newline>'' :: error + string)"
  let ?gl = "\<lparr> ptype = ''gitlab'', host = ''gitlab.com'', owner = ''acme'', repo = ''widgets'',
               fullName = ''acme/widgets'', isGitHub = False, isGitLab = True,
               isSelfHosted = False \<rparr>"
  have t1: "ptype (createPlatform ''github.com'' ''owner'' ''repo'') = ''github''"
    by code_simp
  have t2: "ptype (createPlatform ''gitlab.com'' ''acme'' ''widgets'') = ''gitlab''"
    by code_simp
  have tr: "trim ''git@gitlab.com:acme/widgets.git\<newline>'' = ''git@gitlab.com:acme/widgets.git''"
    by code_simp
  have pr: "parseGitRemoteUrl ''git@gitlab.com:acme/widgets.git'' = Some ?gl"
    by code_simp
  have d1: "detectGitPlatform (\<lambda>x. x) ?w1 ''/repo'' ?o ?s
              = (None, \<lparr>platformCache = [''/repo'' \<mapsto> None],
                         invocations = [ExecSync ''git remote get-url origin'' (Some ''/repo'')]\<rparr>)"
    unfolding detectGitPlatform_def getGitRemoteUrl_def execSync_def
    by (simp add: remoteOrOrigin_def Let_def)
  have d2: "detectGitPlatform (\<lambda>x. x) ?w2 ''/repo'' ?o ?s
              = (Some ?gl, \<lparr>platformCache = [''/repo'' \<mapsto> Some ?gl],
                         invocations = [ExecSync ''git remote get-url origin'' (Some ''/repo'')]\<rparr>)"
    unfolding detectGitPlatform_def getGitRemoteUrl_def execSync_def
    by (simp add: remoteOrOrigin_def Let_def tr pr)
  have c1: "createAdapter (createPlatform ''github.com'' ''owner'' ''repo'')
              = Inr (GitHubAdapter (createPlatform ''github.com'' ''owner'' ''repo''))"
    using factory_dispatch [of "createPlatform ''github.com'' ''owner'' ''repo''"] t1 by blast
  have c2: "createAdapter (createPlatform ''gitlab.com'' ''acme'' ''widgets'')
              = Inr (GitLabAdapter (createPlatform ''gitlab.com'' ''acme'' ''widgets''))"
    using factory_dispatch [of "createPlatform ''gitlab.com'' ''acme'' ''widgets''"] t2 by blast
  have c3: "createAdapter ((createPlatform ''bitbucket.org'' ''owner'' ''repo'')\<lparr>ptype := ''bitbucket''\<rparr>)
              = Inl (Error ''Unsupported platform type: bitbucket'')"
    using factory_dispatch [of "(createPlatform ''bitbucket.org'' ''owner'' ''repo'')\<lparr>ptype := ''bitbucket''\<rparr>"]
    by simp
  have c4: "\<exists>e. getAdapter (\<lambda>x. x) ?w1 ''/repo'' ?s
              = (Inl e, \<lparr>platformCache = [''/repo'' \<mapsto> None],
                         invocations = [ExecSync ''git remote get-url origin'' (Some ''/repo'')]\<rparr>)"
    using factory_dispatch [where resolve = "\<lambda>x. x" and w = ?w1 and projectPath = "''/repo''"
        and s = ?s] d1 by blast
  have g: "getAdapter (\<lambda>x. x) ?w2 ''/repo'' ?s
              = (createAdapter ?gl, \<lparr>platformCache = [''/repo'' \<mapsto> Some ?gl],
                         invocations = [ExecSync ''git remote get-url origin'' (Some ''/repo'')]\<rparr>)"
    using factory_dispatch [where resolve = "\<lambda>x. x" and w = ?w2 and projectPath = "''/repo''"
        and s = ?s] d2 by blast
  have "createAdapter ?gl = Inr (GitLabAdapter ?gl)"
    using factory_dispatch [of ?gl] by simp
  with g have c5: "\<exists>a. getAdapter (\<lambda>x. x) ?w2 ''/repo'' ?s
            = (Inr a, \<lparr>platformCache = [''/repo'' \<mapsto> Some (getPlatform a)],
                       invocations = [ExecSync ''git remote get-url origin'' (Some ''/repo'')]\<rparr>)
          \<and> getCliName a = ''glab'' \<and> fullName (getPlatform a) = ''acme/widgets''"
    by simp
  from c1 c2 c3 c4 c5 show ?thesis by blast
qed

section \<open>The platform adapters\<close>

lemma nonempty_iff_mem: "xs \<noteq> [] \<longleftrightarrow> (\<exists>x. x \<in> set xs)"
  by (cases xs) auto

lemma repoFormatOk_iff:
  "repoFormatOk rp \<longleftrightarrow>
     (\<exists>a b. rp = a @ ''/'' @ b \<and> a \<noteq> [] \<and> b \<noteq> []
            \<and> (\<forall>c \<in> set a. repoChar c) \<and> (\<forall>c \<in> set b. repoChar c))"
  unfolding repoFormatOk_def nonempty_iff_mem set_concat set_map image_image UN_iff Bex_def
    split_paired_Ex prod.case mem_guard lit_iff plusGreedy_iff eos_def
  by blast

lemma repoChar_slash: "\<not> repoChar CHR ''/''"
  by code_simp

lemma no_slash_filter: "\<forall>c \<in> set a. repoChar c \<Longrightarrow> filter (\<lambda>c. c = CHR ''/'') a = []"
  using repoChar_slash by (induction a) auto

lemma repoFormatOk_one_slash:
  assumes "repoFormatOk rp"
  shows "length (filter (\<lambda>c. c = CHR ''/'') rp) = 1"
proof -
  from assms obtain a b where "rp = a @ ''/'' @ b"
    "\<forall>c \<in> set a. repoChar c" "\<forall>c \<in> set b. repoChar c"
    unfolding repoFormatOk_iff by blast
  then show ?thesis by (simp add: no_slash_filter)
qed

lemma catchAs_Inl: "catchAs m p (Inl e) = Inl (PlatformAdapterError m p (Some e))"
  by (simp add: catchAs_def originalError_def instanceofError_def)


lemma getProjectId_starts:
  "\<exists>cs. started (snd (getProjectId platform w s fullPath)) = started s @ cs"
  by (auto simp: getProjectId_def execFileSync_def Let_def split: option.splits sum.splits)

lemma GitLab_getBranches_starts:
  "\<exists>cs. cs \<noteq> [] \<and> started (snd (GitLab_getBranches platform w s rp)) = started s @ cs"
proof (cases "getProjectId platform w s rp")
  case (Pair r s1)
  from getProjectId_starts [of platform w s rp] Pair
  obtain cs where cs: "started s1 = started s @ cs" by auto
  show ?thesis
  proof (cases r)
    case (Inl e)
    have "cs \<noteq> []"
      using Pair Inl cs
      by (auto simp: getProjectId_def execFileSync_def Let_def catchAs_Inl
               split: option.splits sum.splits)
    then show ?thesis using Pair Inl cs by (simp add: GitLab_getBranches_def)
  next
    case (Inr projectId)
    then show ?thesis using Pair cs
      by (auto simp: GitLab_getBranches_def execFileSync_def Let_def split: sum.splits)
  qed
qed

text \<open>
  C10. \<^verbatim>\<open>getBranches\<close> and \<^verbatim>\<open>addGitRemote\<close> of the GitHub adapter throw a
  \<^verbatim>\<open>PlatformAdapterError\<close> for every repository argument that does not match
  \<^verbatim>\<open>^[A-Za-z0-9_.-]+/[A-Za-z0-9_.-]+$\<close>, and start no process before they do (the log is
  returned as it was); an argument with two or more slashes (a nested group name) never
  matches. \<^verbatim>\<open>getBranches\<close> of the GitLab adapter checks no format: whatever its argument,
  it starts at least one process.
\<close>

theorem github_validates_repo_format:
  "(\<not> repoFormatOk rp \<longrightarrow>
      GitHub_getBranches w log rp
        = (Inl (PlatformAdapterError (''Failed to get branches for '' @ rp) ''github''
                  (Some (Error ''Invalid repository format. Expected: owner/repo''))), log)
      \<and> GitHub_addGitRemote w log path rp
        = (Inl (PlatformAdapterError ''Failed to add git remote'' ''github''
                  (Some (Error ''Invalid repository format. Expected: owner/repo''))), log))
   \<and> (2 \<le> length (filter (\<lambda>c. c = CHR ''/'') rp) \<longrightarrow> \<not> repoFormatOk rp)
   \<and> (\<exists>cs. cs \<noteq> [] \<and> started (snd (GitLab_getBranches platform w s rp)) = started s @ cs)"
proof (intro conjI impI)
  assume "\<not> repoFormatOk rp"
  then show "GitHub_getBranches w log rp
        = (Inl (PlatformAdapterError (''Failed to get branches for '' @ rp) ''github''
                  (Some (Error ''Invalid repository format. Expected: owner/repo''))), log)"
    by (simp add: GitHub_getBranches_def catchAs_Inl)
next
  assume "\<not> repoFormatOk rp"
  then show "GitHub_addGitRemote w log path rp
        = (Inl (PlatformAdapterError ''Failed to add git remote'' ''github''
                  (Some (Error ''Invalid repository format. Expected: owner/repo''))), log)"
    by (simp add: GitHub_addGitRemote_def catchAs_Inl)
next
  assume "2 \<le> length (filter (\<lambda>c. c = CHR ''/'') rp)"
  then show "\<not> repoFormatOk rp" using repoFormatOk_one_slash [of rp] by auto
next
  show "\<exists>cs. cs \<noteq> [] \<and> started (snd (GitLab_getBranches platform w s rp)) = started s @ cs"
    by (rule GitLab_getBranches_starts)
qed

theorem github_validates_repo_format_witness:
  "(let w = (\<lambda>log call. if log = [] then Inr ''42\<newline>'' else Inr ''main\<newline>dev\<newline>'');
        gitlab = createPlatform ''gitlab.com'' ''group/subgroup'' ''repo''
    in \<not> repoFormatOk ''group/subgroup/repo''
       \<and> GitHub_getBranches w [] ''group/subgroup/repo''
           = (Inl (PlatformAdapterError ''Failed to get branches for group/subgroup/repo'' ''github''
                     (Some (Error ''Invalid repository format. Expected: owner/repo''))), [])
       \<and> GitHub_addGitRemote w [] ''/repo'' ''group/subgroup/repo''
           = (Inl (PlatformAdapterError ''Failed to add git remote'' ''github''
                     (Some (Error ''Invalid repository format. Expected: owner/repo''))), [])
       \<and> GitLab_getBranches gitlab w \<lparr>projectIdCache = Map.empty, started = []\<rparr> ''group/subgroup/repo''
           = (Inr [''main'', ''dev''],
              \<lparr>projectIdCache = [''group/subgroup/repo'' \<mapsto> Finite 42],
               started = [ExecFileSync ''glab'' [''api'', ''projects/group%2Fsubgroup%2Frepo'', ''--jq'', ''.id''] None,
                          ExecFileSync ''glab'' [''api'', ''projects/42/repository/branches'', ''--jq'', ''.[].name''] None]\<rparr>))"
proof -
  define w :: world where
    "w = (\<lambda>log call. if log = [] then Inr ''42\<newline>'' else Inr ''main\<newline>dev\<newline>'')"
  define gitlab where "gitlab = createPlatform ''gitlab.com'' ''group/subgroup'' ''repo''"
  have two: "2 \<le> length (filter (\<lambda>c. c = CHR ''/'') ''group/subgroup/repo'')"
    by simp
  note th = github_validates_repo_format [where rp = "''group/subgroup/repo''" and w = w
      and log = "[]" and path = "''/repo''" and platform = gitlab
      and s = "\<lparr>projectIdCache = Map.empty, started = []\<rparr>"]
  from th two have bad: "\<not> repoFormatOk ''group/subgroup/repo''" by blast
  have sh: "isSelfHosted gitlab = False"
    unfolding gitlab_def by code_simp
  have enc: "encodeURIComponent ''group/subgroup/repo'' = ''group%2Fsubgroup%2Frepo''"
    by code_simp
  have pi: "parseInt10 (trim ''42\<newline>'') = Finite 42"
    by (simp add: parseInt10_def trim_def isSpace_def isDigit_def digitsValue_def toNumber_def
        roundToDouble_def Let_def)
  have sn: "showNumber (Finite 42) = ''42''"
    by (simp add: showNumber_def showDouble_def showNat.simps digitChar_def)
  have ol: "outputLines (\<lambda>b. length b > 0) ''main\<newline>dev\<newline>'' = [''main'', ''dev'']"
    by code_simp
  have gl: "GitLab_getBranches gitlab w \<lparr>projectIdCache = Map.empty, started = []\<rparr> ''group/subgroup/repo''
           = (Inr [''main'', ''dev''],
              \<lparr>projectIdCache = [''group/subgroup/repo'' \<mapsto> Finite 42],
               started = [ExecFileSync ''glab'' [''api'', ''projects/group%2Fsubgroup%2Frepo'', ''--jq'', ''.id''] None,
                          ExecFileSync ''glab'' [''api'', ''projects/42/repository/branches'', ''--jq'', ''.[].name''] None]\<rparr>)"
    unfolding GitLab_getBranches_def getProjectId_def execFileSync_def
    using ol by (simp add: w_def hostArgs_def sh enc pi sn catchAs_def Let_def)
  from th bad gl show ?thesis
    unfolding Let_def w_def [symmetric] gitlab_def [symmetric] by simp
qed

subsection \<open>Failures of the adapter operations\<close>












































subsection \<open>Release creation of the GitLab adapter\<close>

lemma createReleaseBody_files:
  "createReleaseBody env platform fs options = (r, fs1, evs) \<Longrightarrow>
     fs1 = fs \<or> fs1 = fs(notesFileName env \<mapsto> rel_body options)"
  unfolding createReleaseBody_def Let_def
  by (auto split: option.splits spawn_outcome.splits if_splits)

lemma createRelease_returns:
  "\<exists>res. fst (GitLab_createRelease env platform fs options) = Inr res"
  unfolding GitLab_createRelease_def Let_def
  by (auto split: prod.splits sum.splits option.splits)

lemma createRelease_deletes:
  assumes "unlinkSync env (notesFileName env) = None"
  shows "notesFileName env \<notin> dom (fst (snd (GitLab_createRelease env platform fs options)))"
  using assms unfolding GitLab_createRelease_def Let_def
  by (auto split: prod.splits sum.splits option.splits)

lemma createRelease_frame:
  assumes "f \<noteq> notesFileName env"
  shows "fst (snd (GitLab_createRelease env platform fs options)) f = fs f"
proof -
  obtain r fs1 evs where b: "createReleaseBody env platform fs options = (r, fs1, evs)"
    by (cases "createReleaseBody env platform fs options")
  from createReleaseBody_files [OF b] assms have "fs1 f = fs f" by auto
  then show ?thesis using b assms unfolding GitLab_createRelease_def Let_def
    by (auto split: option.splits)
qed

lemma createRelease_success:
  assumes "writeFileSync env (notesFileName env) (rel_body options) = None"
    and "spawnGlab env ([''release'', ''create'', rel_tagName options, ''--notes-file'',
                         notesFileName env] @ hostArgs platform) (rel_projectPath options)
           = Exit (Some 0) out err"
  shows "fst (GitLab_createRelease env platform fs options)
           = Inr \<lparr> res_success = True,
                   res_releaseUrl = getReleaseUrl env (rel_projectPath options) (rel_tagName options),
                   res_tagName = Some (rel_tagName options), res_error = None \<rparr>"
  using assms unfolding GitLab_createRelease_def createReleaseBody_def Let_def
  by (simp split: option.splits split del: if_split)

lemma createRelease_write_fails:
  assumes "writeFileSync env (notesFileName env) (rel_body options) = Some e"
  shows "fst (GitLab_createRelease env platform fs options)
           = Inr \<lparr> res_success = False, res_releaseUrl = None, res_tagName = None,
                   res_error = Some (message e) \<rparr>
         \<and> (\<forall>c. Started c \<notin> set (snd (snd (GitLab_createRelease env platform fs options))))"
  using assms unfolding GitLab_createRelease_def createReleaseBody_def Let_def
  by (simp add: errorMessage_def instanceofError_def split: option.splits)

lemma createRelease_spawn_fails:
  assumes "writeFileSync env (notesFileName env) (rel_body options) = None"
    and "spawnGlab env ([''release'', ''create'', rel_tagName options, ''--notes-file'',
                         notesFileName env] @ hostArgs platform) (rel_projectPath options)
           = outcome"
    and "outcome = SpawnThrew e \<or> outcome = ErrorEvent e
         \<or> (\<exists>code out err. outcome = Exit code out err \<and> code \<noteq> Some 0
               \<and> e = Error (if err \<noteq> [] then err else ''glab exited with code '' @ showExitCode code))"
  shows "fst (GitLab_createRelease env platform fs options)
           = Inr \<lparr> res_success = False, res_releaseUrl = None, res_tagName = None,
                   res_error = Some (message e) \<rparr>"
  using assms unfolding GitLab_createRelease_def createReleaseBody_def Let_def
  by (auto simp: errorMessage_def instanceofError_def split: option.splits)

lemma createRelease_order:
  assumes "Started c \<in> set (snd (snd (GitLab_createRelease env platform fs options)))"
  shows "\<exists>rest. snd (snd (GitLab_createRelease env platform fs options))
           = Wrote (notesFileName env) (rel_body options) # Started c # rest"
  using assms unfolding GitLab_createRelease_def createReleaseBody_def Let_def
  by (auto split: option.splits spawn_outcome.splits if_splits)

lemma digitChar_value: "d < 10 \<Longrightarrow> (of_char (digitChar d) :: nat) - 48 = d"
proof -
  assume "d < 10"
  then have "d \<in> {0, 1, 2, 3, 4, 5, 6, 7, 8, 9}" by auto
  then show ?thesis by (auto simp: digitChar_def)
qed

lemma digitChar_isDigit: "d < 10 \<Longrightarrow> isDigit (digitChar d)"
proof -
  assume "d < 10"
  then have "d \<in> {0, 1, 2, 3, 4, 5, 6, 7, 8, 9}" by auto
  then show ?thesis by (auto simp: digitChar_def isDigit_def)
qed

lemma digitsValue_snoc: "digitsValue (ds @ [c]) = 10 * digitsValue ds + ((of_char c :: nat) - 48)"
  by (simp add: digitsValue_def)

lemma digitsValue_showNat: "digitsValue (showNat n) = n"
proof (induction n rule: showNat.induct)
  case (1 n)
  show ?case
  proof (cases "n < 10")
    case True
    then show ?thesis
      by (subst showNat.simps) (simp add: digitsValue_def digitChar_value)
  next
    case False
    with 1 have "digitsValue (showNat (n div 10)) = n div 10" by simp
    with False show ?thesis
      by (subst showNat.simps) (simp add: digitsValue_snoc digitChar_value)
  qed
qed

lemma showNat_inj: "showNat a = showNat b \<Longrightarrow> a = b"
  by (metis digitsValue_showNat)

lemma showNat_digits: "c \<in> set (showNat n) \<Longrightarrow> isDigit c"
proof (induction n rule: showNat.induct)
  case (1 n)
  show ?case
  proof (cases "n < 10")
    case True
    with 1(2) show ?thesis
      by (subst (asm) showNat.simps) (simp add: digitChar_isDigit)
  next
    case False
    with 1(2) have "c \<in> set (showNat (n div 10)) \<or> c = digitChar (n mod 10)"
      by (subst (asm) showNat.simps) auto
    with 1(1) False show ?thesis by (auto simp: digitChar_isDigit)
  qed
qed

lemma showNat_no_minus: "showNat n \<noteq> CHR ''-'' # cs"
proof
  assume "showNat n = CHR ''-'' # cs"
  then have "CHR ''-'' \<in> set (showNat n)" by simp
  from showNat_digits [OF this] show False by (simp add: isDigit_def)
qed

lemma showInt_inj: "showInt a = showInt b \<Longrightarrow> a = b"
proof -
  assume eq: "showInt a = showInt b"
  show ?thesis
  proof (cases "a < 0"; cases "b < 0")
    assume "a < 0" "b < 0"
    with eq have "nat (- a) = nat (- b)" by (simp add: showInt_def showNat_inj)
    with \<open>a < 0\<close> \<open>b < 0\<close> show ?thesis by simp
  next
    assume "a < 0" "\<not> b < 0"
    with eq showNat_no_minus [of "nat b" "showNat (nat (- a))"] show ?thesis
      by (simp add: showInt_def)
  next
    assume "\<not> a < 0" "b < 0"
    with eq showNat_no_minus [of "nat a" "showNat (nat (- b))"] show ?thesis
      by (simp add: showInt_def)
  next
    assume "\<not> a < 0" "\<not> b < 0"
    with eq have "nat a = nat b" by (simp add: showInt_def showNat_inj)
    with \<open>\<not> a < 0\<close> \<open>\<not> b < 0\<close> show ?thesis by simp
  qed
qed

lemma notesBaseName_inj: "(notesBaseName t = notesBaseName t') = (t = t')"
  by (auto simp: notesBaseName_def dest: showInt_inj)

text \<open>
  C7 (as the code has it). \<^verbatim>\<open>createRelease\<close> of the GitLab adapter never throws. It writes the
  release body to the notes file \<^verbatim>\<open>glab-release-notes-<Date.now()>.md\<close> of the temporary
  directory before it starts the CLI (a process is started only after the file was written);
  the name differs between two calls exactly if their clock readings differ. On every exit
  path it deletes the notes file if the file exists: whenever that deletion does not throw,
  the notes file does not exist when the call returns. It returns
  \<^verbatim>\<open>{success: true, releaseUrl, tagName}\<close> when the file was written and the CLI exited with
  code 0, and \<^verbatim>\<open>{success: false, error}\<close> with the message of the failure when the write throws,
  the process cannot be started, or it exits with another code (its standard error, or
  \<^verbatim>\<open>glab exited with code <code>\<close>, the code being \<^verbatim>\<open>null\<close> after a signal). No other file is
  touched.
\<close>

theorem createRelease_cleans_up:
  "(\<exists>res. fst (GitLab_createRelease env platform fs options) = Inr res)
   \<and> (unlinkSync env (notesFileName env) = None
        \<longrightarrow> notesFileName env \<notin> dom (fst (snd (GitLab_createRelease env platform fs options))))
   \<and> (Started c \<in> set (snd (snd (GitLab_createRelease env platform fs options)))
        \<longrightarrow> (\<exists>rest. snd (snd (GitLab_createRelease env platform fs options))
                      = Wrote (notesFileName env) (rel_body options) # Started c # rest))
   \<and> (writeFileSync env (notesFileName env) (rel_body options) = None
       \<and> spawnGlab env ([''release'', ''create'', rel_tagName options, ''--notes-file'',
                          notesFileName env] @ hostArgs platform) (rel_projectPath options)
            = Exit (Some 0) out err
        \<longrightarrow> fst (GitLab_createRelease env platform fs options)
              = Inr \<lparr> res_success = True,
                      res_releaseUrl = getReleaseUrl env (rel_projectPath options) (rel_tagName options),
                      res_tagName = Some (rel_tagName options), res_error = None \<rparr>)
   \<and> (writeFileSync env (notesFileName env) (rel_body options) = Some e
        \<longrightarrow> fst (GitLab_createRelease env platform fs options)
              = Inr \<lparr> res_success = False, res_releaseUrl = None, res_tagName = None,
                      res_error = Some (message e) \<rparr>
            \<and> (\<forall>c. Started c \<notin> set (snd (snd (GitLab_createRelease env platform fs options)))))
   \<and> (writeFileSync env (notesFileName env) (rel_body options) = None
       \<and> spawnGlab env ([''release'', ''create'', rel_tagName options, ''--notes-file'',
                          notesFileName env] @ hostArgs platform) (rel_projectPath options)
            = outcome
       \<and> (outcome = SpawnThrew e \<or> outcome = ErrorEvent e
            \<or> (\<exists>code out err. outcome = Exit code out err \<and> code \<noteq> Some 0
                  \<and> e = Error (if err \<noteq> [] then err
                               else ''glab exited with code ''
                                      @ (case code of None \<Rightarrow> ''null'' | Some n \<Rightarrow> showInt n))))
        \<longrightarrow> fst (GitLab_createRelease env platform fs options)
              = Inr \<lparr> res_success = False, res_releaseUrl = None, res_tagName = None,
                      res_error = Some (message e) \<rparr>)
   \<and> (f \<noteq> notesFileName env
        \<longrightarrow> fst (snd (GitLab_createRelease env platform fs options)) f = fs f)
   \<and> notesFileName env
         = joinPath env (tmpdir env) (''glab-release-notes-'' @ showInt (dateNow env) @ ''.md'')
   \<and> ((''glab-release-notes-'' @ showInt t @ ''.md'' = ''glab-release-notes-'' @ showInt t' @ ''.md'')
         = (t = t'))"
  apply (intro conjI)
  subgoal by (rule createRelease_returns)
  subgoal using createRelease_deletes by blast
  subgoal using createRelease_order by blast
  subgoal using createRelease_success by blast
  subgoal using createRelease_write_fails by blast
  subgoal using createRelease_spawn_fails [of env options platform outcome e fs]
    unfolding showExitCode_def by blast
  subgoal using createRelease_frame by blast
  subgoal by (simp add: notesFileName_def notesBaseName_def)
  subgoal using notesBaseName_inj [of t t'] by (simp add: notesBaseName_def)
  done

theorem createRelease_cleans_up_witness:
  "(let env = \<lparr> tmpdir = ''/tmp'', dateNow = 1700000000000,
                joinPath = (\<lambda>dir file. dir @ ''/'' @ file),
                writeFileSync = (\<lambda>file content. None),
                spawnGlab = (\<lambda>args cwd. Exit None [] []),
                getReleaseUrl = (\<lambda>path tag. None),
                unlinkSync = (\<lambda>file. None) \<rparr>;
        gitlab = createPlatform ''gitlab.com'' ''acme'' ''widgets'';
        options = \<lparr> rel_projectPath = ''/repo'', rel_version = ''1.0.0'', rel_tagName = ''v1.0.0'',
                    rel_title = ''v1.0.0'', rel_body = ''Release notes'', rel_draft = None,
                    rel_prerelease = None \<rparr>;
        call = GitLab_createRelease env gitlab Map.empty options
    in notesFileName env = ''/tmp/glab-release-notes-1700000000000.md''
       \<and> fst call = Inr \<lparr> res_success = False, res_releaseUrl = None, res_tagName = None,
                          res_error = Some ''glab exited with code null'' \<rparr>
       \<and> notesFileName env \<notin> dom (fst (snd call))
       \<and> snd (snd call)
           = [Wrote ''/tmp/glab-release-notes-1700000000000.md'' ''Release notes'',
              Started (Spawn ''glab'' [''release'', ''create'', ''v1.0.0'', ''--notes-file'',
                                      ''/tmp/glab-release-notes-1700000000000.md''] (Some ''/repo'')),
              Unlinked ''/tmp/glab-release-notes-1700000000000.md''])"
proof -
  define env where "env = \<lparr> tmpdir = ''/tmp'', dateNow = 1700000000000,
                joinPath = (\<lambda>dir file. dir @ ''/'' @ file),
                writeFileSync = (\<lambda>file content. None),
                spawnGlab = (\<lambda>args cwd. Exit None [] []),
                getReleaseUrl = (\<lambda>path tag. None),
                unlinkSync = (\<lambda>file. None) \<rparr>"
  define gitlab where "gitlab = createPlatform ''gitlab.com'' ''acme'' ''widgets''"
  define options where
    "options = \<lparr> rel_projectPath = ''/repo'', rel_version = ''1.0.0'', rel_tagName = ''v1.0.0'',
                    rel_title = ''v1.0.0'', rel_body = ''Release notes'', rel_draft = None,
                    rel_prerelease = None \<rparr>"
  define call where "call = GitLab_createRelease env gitlab Map.empty options"
  note th = createRelease_cleans_up [where env = env and platform = gitlab and fs = Map.empty
      and options = options and e = "Error ''glab exited with code null''"
      and outcome = "Exit None [] []"
      and c = "Spawn ''glab'' [''release'', ''create'', ''v1.0.0'', ''--notes-file'',
                                      ''/tmp/glab-release-notes-1700000000000.md''] (Some ''/repo'')"]
  have sn: "showInt 1700000000000 = ''1700000000000''"
    by (simp add: showInt_def showNat.simps digitChar_def)
  have nf: "notesFileName env = ''/tmp/glab-release-notes-1700000000000.md''"
    by (simp add: notesFileName_def notesBaseName_def env_def sn)
  have sh: "hostArgs gitlab = []"
    unfolding gitlab_def by code_simp
  have h2: "unlinkSync env (notesFileName env) = None"
    by (simp add: env_def)
  have h6: "writeFileSync env (notesFileName env) (rel_body options) = None
       \<and> spawnGlab env ([''release'', ''create'', rel_tagName options, ''--notes-file'',
                          notesFileName env] @ hostArgs gitlab) (rel_projectPath options)
            = Exit None [] []
       \<and> (Exit None [] [] = SpawnThrew (Error ''glab exited with code null'')
            \<or> Exit None [] [] = ErrorEvent (Error ''glab exited with code null'')
            \<or> (\<exists>code out err. Exit None [] [] = Exit code out err
                  \<and> code \<noteq> Some 0
                  \<and> Error ''glab exited with code null''
                      = Error (if err \<noteq> [] then err
                               else ''glab exited with code ''
                                      @ (case code of None \<Rightarrow> ''null'' | Some n \<Rightarrow> showInt n))))"
    by (simp add: env_def)
  have c2: "notesFileName env \<notin> dom (fst (snd call))"
    using th [THEN conjunct2, THEN conjunct1] h2 unfolding call_def by (rule mp)
  have c6: "fst call = Inr \<lparr> res_success = False, res_releaseUrl = None, res_tagName = None,
                          res_error = Some (message (Error ''glab exited with code null'')) \<rparr>"
    using th [THEN conjunct2, THEN conjunct2, THEN conjunct2, THEN conjunct2, THEN conjunct2,
        THEN conjunct1] h6
    unfolding call_def by (rule mp)
  have evs: "snd (snd call)
           = [Wrote ''/tmp/glab-release-notes-1700000000000.md'' ''Release notes'',
              Started (Spawn ''glab'' [''release'', ''create'', ''v1.0.0'', ''--notes-file'',
                                      ''/tmp/glab-release-notes-1700000000000.md''] (Some ''/repo'')),
              Unlinked ''/tmp/glab-release-notes-1700000000000.md'']"
    unfolding call_def GitLab_createRelease_def createReleaseBody_def Let_def nf sh
    by (simp add: env_def options_def)
  from nf c2 c6 evs show ?thesis
    unfolding Let_def env_def [symmetric] gitlab_def [symmetric] options_def [symmetric]
      call_def [symmetric]
    by simp
qed

text \<open>
  Two things the code does not guarantee. The deletion is attempted, not guaranteed: when
  \<^verbatim>\<open>unlinkSync\<close> throws, the error is ignored and the notes file is still there when the call
  returns. And the name of the notes file is not unique: two calls that read the same clock
  value (two releases started within one millisecond) write their notes to the same file.
\<close>

theorem createRelease_file_left_behind:
  "(let env = \<lparr> tmpdir = ''/tmp'', dateNow = 1700000000000,
                joinPath = (\<lambda>dir file. dir @ ''/'' @ file),
                writeFileSync = (\<lambda>file content. None),
                spawnGlab = (\<lambda>args cwd. Exit (Some 0) [] []),
                getReleaseUrl = (\<lambda>path tag. None),
                unlinkSync = (\<lambda>file. Some (Error ''EBUSY: resource busy or locked'')) \<rparr>;
        gitlab = createPlatform ''gitlab.com'' ''acme'' ''widgets'';
        options = \<lparr> rel_projectPath = ''/repo'', rel_version = ''1.0.0'', rel_tagName = ''v1.0.0'',
                    rel_title = ''v1.0.0'', rel_body = ''Release notes'', rel_draft = None,
                    rel_prerelease = None \<rparr>;
        call = GitLab_createRelease env gitlab Map.empty options;
        options' = \<lparr> rel_projectPath = ''/repo'', rel_version = ''1.0.1'', rel_tagName = ''v1.0.1'',
                     rel_title = ''v1.0.1'', rel_body = ''Other notes'', rel_draft = None,
                     rel_prerelease = None \<rparr>;
        call' = GitLab_createRelease env gitlab Map.empty options'
    in fst call = Inr \<lparr> res_success = True, res_releaseUrl = None, res_tagName = Some ''v1.0.0'',
                        res_error = None \<rparr>
       \<and> fst (snd call) (notesFileName env) = Some ''Release notes''
       \<and> hd (snd (snd call)) = Wrote ''/tmp/glab-release-notes-1700000000000.md'' ''Release notes''
       \<and> hd (snd (snd call')) = Wrote ''/tmp/glab-release-notes-1700000000000.md'' ''Other notes'')"
proof -
  have sh: "hostArgs (createPlatform ''gitlab.com'' ''acme'' ''widgets'') = []"
    by code_simp
  have sn: "showInt 1700000000000 = ''1700000000000''"
    by (simp add: showInt_def showNat.simps digitChar_def)
  show ?thesis
    unfolding Let_def GitLab_createRelease_def createReleaseBody_def sh
    by (simp add: notesFileName_def notesBaseName_def sn)
qed

subsection \<open>The interactive login\<close>






































end
